theory Spec2Isabelle
  imports Main "HOL-Library.Sublist"
begin

section \<open>Python values\<close>

text \<open>
  The program is the single script \<^verbatim>\<open>src/app.py\<close>. A Python \<^verbatim>\<open>str\<close> is a HOL
  \<^typ>\<open>string\<close>, one \<^typ>\<open>char\<close> for each character, so the model reads the strings
  whose characters are code points below 256. A call that may raise is a value of
  \<open>'a outcome\<close>: the text of the exception, or what the call returned.
\<close>

datatype 'a outcome = Raises string | Returns 'a

text \<open>
  The values \<^verbatim>\<open>json.loads\<close> and \<^verbatim>\<open>requests.Response.json\<close> build: \<^verbatim>\<open>None\<close>,
  \<^verbatim>\<open>bool\<close>, \<^verbatim>\<open>int\<close>, \<^verbatim>\<open>float\<close>, \<^verbatim>\<open>str\<close>, \<^verbatim>\<open>list\<close> and \<^verbatim>\<open>dict\<close>.
  A dict is the list of its items in insertion order. Floating-point arithmetic is
  not modelled: a float is kept as the literal it was read from.
\<close>

datatype json =
    JNull
  | JBool bool
  | JInt int
  | JFloat string
  | JString string
  | JArray "json list"
  | JObject "(string \<times> json) list"

text \<open>\<^verbatim>\<open>d.get(k)\<close> and \<^verbatim>\<open>d.get(k, default)\<close> of a dict.\<close>

definition dict_get :: "(string \<times> json) list \<Rightarrow> string \<Rightarrow> json" where
  "dict_get d k = (case map_of d k of None \<Rightarrow> JNull | Some v \<Rightarrow> v)"

definition dict_get_default :: "(string \<times> json) list \<Rightarrow> string \<Rightarrow> json \<Rightarrow> json" where
  "dict_get_default d k dflt = (case map_of d k of None \<Rightarrow> dflt | Some v \<Rightarrow> v)"

text \<open>\<^verbatim>\<open>d[k] = v\<close>: a key already present keeps its place and takes the new value.\<close>

fun dict_set :: "(string \<times> json) list \<Rightarrow> string \<Rightarrow> json \<Rightarrow> (string \<times> json) list" where
  "dict_set [] k v = [(k, v)]"
| "dict_set ((k', v') # d) k v = (if k' = k then (k, v) # d else (k', v') # dict_set d k v)"

text \<open>
  The truth value of a Python object, as \<^verbatim>\<open>if x\<close>, \<^verbatim>\<open>not x\<close> and \<^verbatim>\<open>x or y\<close> read it.
  A float literal is read as zero when its mantissa has no digit but 0 (rounding of
  a tiny literal to zero is floating point, and is not modelled).
\<close>

definition float_nonzero :: "string \<Rightarrow> bool" where
  "float_nonzero lit =
     (lit \<in> set [''NaN'', ''Infinity'', ''-Infinity''] \<or>
      list_ex (\<lambda>c. c \<in> set ''123456789'') (takeWhile (\<lambda>c. c \<notin> set ''eE'') lit))"

fun truthy :: "json \<Rightarrow> bool" where
  "truthy JNull = False"
| "truthy (JBool b) = b"
| "truthy (JInt i) = (i \<noteq> 0)"
| "truthy (JFloat lit) = float_nonzero lit"
| "truthy (JString s) = (s \<noteq> [])"
| "truthy (JArray xs) = (xs \<noteq> [])"
| "truthy (JObject d) = (d \<noteq> [])"

text \<open>\<^verbatim>\<open>x or y\<close>.\<close>

definition py_or :: "json \<Rightarrow> json \<Rightarrow> json" where
  "py_or x y = (if truthy x then x else y)"

text \<open>\<^verbatim>\<open>type(x).__name__\<close>, as the text of an \<^verbatim>\<open>AttributeError\<close> spells it.\<close>

fun type_name :: "json \<Rightarrow> string" where
  "type_name JNull = ''NoneType''"
| "type_name (JBool b) = ''bool''"
| "type_name (JInt i) = ''int''"
| "type_name (JFloat lit) = ''float''"
| "type_name (JString s) = ''str''"
| "type_name (JArray xs) = ''list''"
| "type_name (JObject d) = ''dict''"

definition no_attribute_get :: "json \<Rightarrow> string" where
  "no_attribute_get v =
     [CHR 0x27] @ type_name v @ [CHR 0x27] @ '' object has no attribute '' @
     [CHR 0x27] @ ''get'' @ [CHR 0x27]"

section \<open>String methods\<close>

text \<open>
  \<^verbatim>\<open>str.isspace\<close> on one character, for the code points below 256: the ASCII white
  space, the four separators 0x1C to 0x1F, NEL and the no-break space.
\<close>

definition py_space :: "char \<Rightarrow> bool" where
  "py_space c =
     (c \<in> set [CHR 0x09, CHR 0x0A, CHR 0x0B, CHR 0x0C, CHR 0x0D, CHR 0x1C, CHR 0x1D,
                CHR 0x1E, CHR 0x1F, CHR 0x20, CHR 0x85, CHR 0xA0])"

text \<open>\<^verbatim>\<open>s.strip()\<close>: the white space at both ends goes.\<close>

definition py_strip :: "string \<Rightarrow> string" where
  "py_strip s = rev (dropWhile py_space (rev (dropWhile py_space s)))"

text \<open>
  \<^verbatim>\<open>s.replace(old, new)\<close>: the occurrences of \<open>old\<close> are found from the left and do
  not overlap. For an empty \<open>old\<close> Python puts \<open>new\<close> before every character and at
  the end.
\<close>

fun py_replace :: "string \<Rightarrow> string \<Rightarrow> string \<Rightarrow> string" where
  "py_replace [] new s = concat (map (\<lambda>c. new @ [c]) s) @ new"
| "py_replace (a # old) new [] = []"
| "py_replace (a # old) new (c # cs) =
     (if prefix (a # old) (c # cs) then new @ py_replace (a # old) new (drop (length old) cs)
      else c # py_replace (a # old) new cs)"

text \<open>\<^verbatim>\<open>sep.join(xs)\<close>.\<close>

fun py_join :: "string \<Rightarrow> string list \<Rightarrow> string" where
  "py_join sep [] = []"
| "py_join sep [x] = x"
| "py_join sep (x # y # xs) = x @ sep @ py_join sep (y # xs)"

section \<open>The json module\<close>

subsection \<open>Writing: \<^verbatim>\<open>json.dumps\<close>\<close>

text \<open>
  \<^verbatim>\<open>json.dumps\<close> with its default arguments: the separators are \<^verbatim>\<open>", "\<close> and
  \<^verbatim>\<open>": "\<close>, and every character outside the printable ASCII range is escaped.
\<close>

definition digit_char :: "nat \<Rightarrow> char" where
  "digit_char n = ''0123456789abcdef'' ! (n mod 16)"

fun decimal :: "nat \<Rightarrow> string" where
  "decimal n = (if n < 10 then [digit_char n] else decimal (n div 10) @ [digit_char (n mod 10)])"

declare decimal.simps [simp del]

definition py_str_int :: "int \<Rightarrow> string" where
  "py_str_int i = (if i < 0 then CHR ''-'' # decimal (nat (- i)) else decimal (nat i))"

definition escape_char :: "char \<Rightarrow> string" where
  "escape_char c =
     (if c = CHR 0x22 then [CHR 0x5C, CHR 0x22]
      else if c = CHR 0x5C then [CHR 0x5C, CHR 0x5C]
      else if c = CHR 0x0A then [CHR 0x5C, CHR ''n'']
      else if c = CHR 0x0D then [CHR 0x5C, CHR ''r'']
      else if c = CHR 0x09 then [CHR 0x5C, CHR ''t'']
      else if c = CHR 0x08 then [CHR 0x5C, CHR ''b'']
      else if c = CHR 0x0C then [CHR 0x5C, CHR ''f'']
      else if (of_char c :: nat) < 32 \<or> 126 < (of_char c :: nat) then
        [CHR 0x5C, CHR ''u'', CHR ''0'', CHR ''0'',
         digit_char (of_char c div 16), digit_char (of_char c)]
      else [c])"

definition dumps_string :: "string \<Rightarrow> string" where
  "dumps_string s = CHR 0x22 # concat (map escape_char s) @ [CHR 0x22]"

fun json_dumps :: "json \<Rightarrow> string" where
  "json_dumps JNull = ''null''"
| "json_dumps (JBool b) = (if b then ''true'' else ''false'')"
| "json_dumps (JInt i) = py_str_int i"
| "json_dumps (JFloat lit) = lit"
| "json_dumps (JString s) = dumps_string s"
| "json_dumps (JArray xs) = ''['' @ py_join '', '' (map json_dumps xs) @ '']''"
| "json_dumps (JObject d) =
     ''{'' @ py_join '', '' (map (\<lambda>kv. dumps_string (fst kv) @ '': '' @ json_dumps (snd kv)) d) @ ''}''"

subsection \<open>Reading: \<^verbatim>\<open>json.loads\<close>\<close>

text \<open>
  The decoder of the standard library, as a recursive-descent reader of the text.
  White space between tokens is blank, tab, line feed and carriage return.
\<close>

definition json_space :: "char \<Rightarrow> bool" where
  "json_space c = (c \<in> set [CHR 0x20, CHR 0x09, CHR 0x0A, CHR 0x0D])"

definition skip_ws :: "string \<Rightarrow> string" where
  "skip_ws s = dropWhile json_space s"

definition is_digit :: "char \<Rightarrow> bool" where
  "is_digit c = (c \<in> set ''0123456789'')"

definition digit_val :: "char \<Rightarrow> nat" where
  "digit_val c = of_char c - 48"

definition hex_val :: "char \<Rightarrow> nat option" where
  "hex_val c =
     (if c \<in> set ''0123456789'' then Some (of_char c - 48)
      else if c \<in> set ''abcdef'' then Some (of_char c - 87)
      else if c \<in> set ''ABCDEF'' then Some (of_char c - 55)
      else None)"

text \<open>
  The character a \<^verbatim>\<open>\uXXXX\<close> escape names, when its code point is below 256 (the
  characters the model has).
\<close>

definition hex4 :: "char \<Rightarrow> char \<Rightarrow> char \<Rightarrow> char \<Rightarrow> char option" where
  "hex4 a b c d =
     (case (hex_val a, hex_val b, hex_val c, hex_val d) of
        (Some x, Some y, Some z, Some w) \<Rightarrow>
          (if x = 0 \<and> y = 0 then Some (char_of (16 * z + w)) else None)
      | _ \<Rightarrow> None)"

definition unescape :: "char \<Rightarrow> char option" where
  "unescape e =
     (if e = CHR 0x22 then Some (CHR 0x22)
      else if e = CHR 0x5C then Some (CHR 0x5C)
      else if e = CHR ''/'' then Some (CHR ''/'')
      else if e = CHR ''b'' then Some (CHR 0x08)
      else if e = CHR ''f'' then Some (CHR 0x0C)
      else if e = CHR ''n'' then Some (CHR 0x0A)
      else if e = CHR ''r'' then Some (CHR 0x0D)
      else if e = CHR ''t'' then Some (CHR 0x09)
      else None)"

definition push :: "char \<Rightarrow> (string \<times> string) option \<Rightarrow> (string \<times> string) option" where
  "push c r = (case r of None \<Rightarrow> None | Some (s, rest) \<Rightarrow> Some (c # s, rest))"

text \<open>
  The body of a string, after its opening quote: the text up to the closing quote,
  and what follows it. A control character inside a string is an error (the
  decoder is strict).
\<close>

fun scan_string :: "string \<Rightarrow> (string \<times> string) option" where
  "scan_string [] = None"
| "scan_string [c] = (if c = CHR 0x22 then Some ([], []) else None)"
| "scan_string (c # e # cs) =
     (if c = CHR 0x22 then Some ([], e # cs)
      else if c = CHR 0x5C then
        (if e = CHR ''u'' then
           (case cs of
              h1 # h2 # h3 # h4 # rest \<Rightarrow>
                (case hex4 h1 h2 h3 h4 of
                   None \<Rightarrow> None
                 | Some ch \<Rightarrow> push ch (scan_string rest))
            | _ \<Rightarrow> None)
         else (case unescape e of None \<Rightarrow> None | Some ch \<Rightarrow> push ch (scan_string cs)))
      else if (of_char c :: nat) < 32 then None
      else push c (scan_string (e # cs)))"

text \<open>
  A number: an optional minus sign, the integer part (a lone 0, or digits that do
  not start with 0), then an optional fraction and an optional exponent, each taken
  only when it is complete. Without fraction and exponent the number is an \<^verbatim>\<open>int\<close>.
\<close>

definition scan_exponent :: "string \<Rightarrow> string \<times> string" where
  "scan_exponent s =
     (case s of
        [] \<Rightarrow> ([], s)
      | e # r \<Rightarrow>
          if e \<in> set ''eE'' then
            (let sg = (case r of [] \<Rightarrow> [] | x # y \<Rightarrow> if x \<in> set ''+-'' then [x] else []);
                 r' = drop (length sg) r;
                 ds = takeWhile is_digit r'
             in if ds = [] then ([], s) else (e # sg @ ds, dropWhile is_digit r'))
          else ([], s))"

definition scan_fraction :: "string \<Rightarrow> string \<times> string" where
  "scan_fraction s =
     (case s of
        p # q # r \<Rightarrow>
          if p = CHR ''.'' \<and> is_digit q
          then (p # takeWhile is_digit (q # r), dropWhile is_digit (q # r))
          else ([], s)
      | _ \<Rightarrow> ([], s))"

definition int_of_digits :: "string \<Rightarrow> int" where
  "int_of_digits ds = foldl (\<lambda>a c. 10 * a + int (digit_val c)) 0 ds"

definition scan_number :: "string \<Rightarrow> (json \<times> string) option" where
  "scan_number s =
     (let sg = (case s of [] \<Rightarrow> [] | c # r \<Rightarrow> if c = CHR ''-'' then [c] else []);
          r0 = drop (length sg) s
      in case r0 of
           [] \<Rightarrow> None
         | d # r1 \<Rightarrow>
             if \<not> is_digit d then None
             else
               (let ip = (if d = CHR ''0'' then [d] else takeWhile is_digit r0);
                    (frac, r3) = scan_fraction (drop (length ip) r0);
                    (ex, r4) = scan_exponent r3
                in if frac = [] \<and> ex = []
                   then Some (JInt (if sg = [] then int_of_digits ip else - int_of_digits ip), r4)
                   else Some (JFloat (sg @ ip @ frac @ ex), r4)))"

definition scan_literal :: "string \<Rightarrow> (json \<times> string) option" where
  "scan_literal s =
     (if prefix ''null'' s then Some (JNull, drop 4 s)
      else if prefix ''true'' s then Some (JBool True, drop 4 s)
      else if prefix ''false'' s then Some (JBool False, drop 5 s)
      else (case scan_number s of
              Some r \<Rightarrow> Some r
            | None \<Rightarrow>
                if prefix ''NaN'' s then Some (JFloat ''NaN'', drop 3 s)
                else if prefix ''Infinity'' s then Some (JFloat ''Infinity'', drop 8 s)
                else if prefix ''-Infinity'' s then Some (JFloat ''-Infinity'', drop 9 s)
                else None))"

text \<open>
  A value, the elements of an array after its bracket, and the members of an object
  after its brace. The first argument bounds the depth of the calls: \<open>read_json\<close>
  starts it at twice the length of the text plus two.
\<close>

fun parse_value :: "nat \<Rightarrow> string \<Rightarrow> (json \<times> string) option"
  and parse_elems :: "nat \<Rightarrow> json list \<Rightarrow> string \<Rightarrow> (json \<times> string) option"
  and parse_members :: "nat \<Rightarrow> (string \<times> json) list \<Rightarrow> string \<Rightarrow> (json \<times> string) option"
where
  "parse_value 0 s = None"
| "parse_value (Suc n) s =
     (case s of
        [] \<Rightarrow> None
      | c # cs \<Rightarrow>
          if c = CHR 0x22 then
            (case scan_string cs of None \<Rightarrow> None | Some (t, r) \<Rightarrow> Some (JString t, r))
          else if c = CHR ''{'' then
            (case skip_ws cs of
               [] \<Rightarrow> None
             | d # ds \<Rightarrow> if d = CHR ''}'' then Some (JObject [], ds) else parse_members n [] (d # ds))
          else if c = CHR ''['' then
            (case skip_ws cs of
               [] \<Rightarrow> None
             | d # ds \<Rightarrow> if d = CHR '']'' then Some (JArray [], ds) else parse_elems n [] (d # ds))
          else scan_literal s)"
| "parse_elems 0 acc s = None"
| "parse_elems (Suc n) acc s =
     (case parse_value n s of
        None \<Rightarrow> None
      | Some (v, r) \<Rightarrow>
          (case skip_ws r of
             [] \<Rightarrow> None
           | d # ds \<Rightarrow>
               if d = CHR '']'' then Some (JArray (acc @ [v]), ds)
               else if d = CHR '','' then parse_elems n (acc @ [v]) (skip_ws ds)
               else None))"
| "parse_members 0 acc s = None"
| "parse_members (Suc n) acc s =
     (case s of
        [] \<Rightarrow> None
      | q # cs \<Rightarrow>
          if q \<noteq> CHR 0x22 then None
          else
            (case scan_string cs of
               None \<Rightarrow> None
             | Some (k, r) \<Rightarrow>
                 (case skip_ws r of
                    [] \<Rightarrow> None
                  | colon # r1 \<Rightarrow>
                      if colon \<noteq> CHR '':'' then None
                      else
                        (case parse_value n (skip_ws r1) of
                           None \<Rightarrow> None
                         | Some (v, r2) \<Rightarrow>
                             (case skip_ws r2 of
                                [] \<Rightarrow> None
                              | d # ds \<Rightarrow>
                                  if d = CHR ''}'' then Some (JObject (dict_set acc k v), ds)
                                  else if d = CHR '','' then
                                    parse_members n (dict_set acc k v) (skip_ws ds)
                                  else None)))))"

text \<open>
  The whole text: white space, one value, white space, and nothing after it.
  \<open>None\<close> is the decoder's \<^verbatim>\<open>JSONDecodeError\<close>.
\<close>

definition read_json :: "string \<Rightarrow> json option" where
  "read_json s =
     (case parse_value (2 * length s + 2) (skip_ws s) of
        None \<Rightarrow> None
      | Some (v, r) \<Rightarrow> if skip_ws r = [] then Some v else None)"

text \<open>
  \<^verbatim>\<open>json.loads\<close>, raising with the text \<open>msg\<close>: the wording of the decoder's error
  message is not modelled, so it is an argument.
\<close>

definition json_loads :: "string \<Rightarrow> string \<Rightarrow> json outcome" where
  "json_loads msg s = (case read_json s of None \<Rightarrow> Raises msg | Some v \<Rightarrow> Returns v)"

section \<open>What the script does to the world\<close>

text \<open>
  The script calls the remote model, posts to the webhook and draws on the page.
  Each function of the model returns the list of these effects, in the order the
  script performs them, beside its value. What a widget shows is a text, a value, or
  an f-string: a text followed by \<^verbatim>\<open>str\<close> of a value.
\<close>

datatype shown = Text string | Value json | Text_value string json

datatype effect =
    Model_call string
  | Http_post string json
  | Warning shown
  | Error shown
  | Success shown
  | Info shown
  | Code shown
  | Json json
  | Subheader string
  | Expander string
  | Spinner string

definition is_model_call :: "effect \<Rightarrow> bool" where
  "is_model_call x = (case x of Model_call p \<Rightarrow> True | _ \<Rightarrow> False)"

definition is_http_post :: "effect \<Rightarrow> bool" where
  "is_http_post x = (case x of Http_post u p \<Rightarrow> True | _ \<Rightarrow> False)"

section \<open>Text extraction\<close>

text \<open>
  \<^verbatim>\<open>extract_text_from_pdf\<close> (lines 35 to 54). The two libraries are the arguments:
  \<^verbatim>\<open>pdfplumber.open\<close> raises or gives the pages, and \<^verbatim>\<open>extract_text\<close> of a page raises
  or returns \<^verbatim>\<open>None\<close> or a text; \<^verbatim>\<open>fitz.open\<close> (with its import) raises or gives the
  pages, whose \<^verbatim>\<open>get_text\<close> raises or returns a text, and the outcome of \<^verbatim>\<open>close\<close>.
  The list \<^verbatim>\<open>text_chunks\<close> is shared by both loops.
\<close>

fun plumber_loop :: "string option outcome list \<Rightarrow> string list \<Rightarrow> string list \<times> string option" where
  "plumber_loop [] text_chunks = (text_chunks, None)"
| "plumber_loop (Raises e # pages) text_chunks = (text_chunks, Some e)"
| "plumber_loop (Returns t # pages) text_chunks =
     plumber_loop pages
       (case t of
          None \<Rightarrow> text_chunks
        | Some x \<Rightarrow> if x \<noteq> [] then text_chunks @ [x] else text_chunks)"

fun fitz_loop :: "string outcome list \<Rightarrow> string list \<Rightarrow> string list \<times> string option" where
  "fitz_loop [] text_chunks = (text_chunks, None)"
| "fitz_loop (Raises e # pages) text_chunks = (text_chunks, Some e)"
| "fitz_loop (Returns t # pages) text_chunks = fitz_loop pages (text_chunks @ [t])"

definition extract_text_from_pdf ::
  "string option outcome list outcome \<Rightarrow> (string outcome list \<times> unit outcome) outcome
     \<Rightarrow> effect list \<times> string" where
  "extract_text_from_pdf plumber fitz =
     (case (case plumber of
              Raises e \<Rightarrow> ([], Some e)
            | Returns pages \<Rightarrow> plumber_loop pages []) of
        (text_chunks, None) \<Rightarrow> ([], py_join ''\<newline>\<newline>'' text_chunks)
      | (text_chunks, Some e) \<Rightarrow>
          (case (case fitz of
                   Raises e2 \<Rightarrow> (text_chunks, Some e2)
                 | Returns (pages, closing) \<Rightarrow>
                     (case fitz_loop pages text_chunks of
                        (chunks, Some e2) \<Rightarrow> (chunks, Some e2)
                      | (chunks, None) \<Rightarrow>
                          (case closing of
                             Raises e2 \<Rightarrow> (chunks, Some e2)
                           | Returns u \<Rightarrow> (chunks, None)))) of
             (chunks, Some e2) \<Rightarrow>
               ([Warning (Text (''pdfplumber failed: '' @ e)),
                 Error (Text (''PDF extraction fallback failed: '' @ e2))], [])
           | (chunks, None) \<Rightarrow>
               ([Warning (Text (''pdfplumber failed: '' @ e))],
                py_join ''\<newline>\<newline>'' chunks)))"

text \<open>
  The spec's words for the result: the texts of the pages in page order, those with
  no text left out, joined by a blank line.
\<close>

definition page_concatenation :: "string list \<Rightarrow> string" where
  "page_concatenation texts = py_join ''\<newline>\<newline>'' (filter (\<lambda>t. t \<noteq> []) texts)"

section \<open>Gemini extraction\<close>

definition INVOICE_SCHEMA :: json where
  "INVOICE_SCHEMA =
     JObject
       [(''title'', JString ''InvoiceExtraction''),
        (''type'', JString ''object''),
        (''properties'',
         JObject
           [(''extracted_pairs'',
             JObject
               [(''type'', JString ''array''),
                (''items'',
                 JObject
                   [(''type'', JString ''object''),
                    (''properties'',
                     JObject
                       [(''key'', JObject [(''type'', JString ''string'')]),
                        (''value'', JObject [(''type'', JString ''string'')]),
                        (''confidence'', JObject [(''type'', JString ''number'')]),
                        (''reason'', JObject [(''type'', JString ''string'')])]),
                    (''required'', JArray [JString ''key'', JString ''value''])])]),
            (''risk_level'', JObject [(''type'', JString ''string'')]),
            (''summary'', JObject [(''type'', JString ''string'')])]),
        (''required'', JArray [JString ''extracted_pairs''])]"

text \<open>
  The en dash of \<^verbatim>\<open>5-8\<close> in the source is the code point 0x2013, outside the
  characters of the model: it is spelt here by its three UTF-8 bytes.
\<close>

definition SYSTEM_PROMPT :: string where
  "SYSTEM_PROMPT =
     ''You are an assistant that MUST output only valid JSON matching the provided schema. '' @
     ''You will be given an INVOICE document and a USER QUESTION. '' @
     ''Identify the 5'' @ [CHR 0xE2, CHR 0x80, CHR 0x93] @
     ''8 most relevant key/value pairs that help answer the user'' @ [CHR 0x27] @ ''s question. '' @
     ''For each pair, include '' @ [CHR 0x27] @ ''reason'' @ [CHR 0x27] @ '' and '' @
     [CHR 0x27] @ ''confidence'' @ [CHR 0x27] @ '' (0.0 - 1.0). '' @
     ''Determine the '' @ [CHR 0x27] @ ''risk_level'' @ [CHR 0x27] @
     '' based on the invoice total amount as follows: '' @
     ''High: total amount greater than 50,000; '' @
     ''Medium: total amount between 5,000 and 50,000; '' @
     ''Low: total amount less than 5,000; '' @
     ''Use '' @ [CHR 0x27] @ ''Unknown'' @ [CHR 0x27] @
     '' if the total amount cannot be determined. '' @
     ''Also include a short '' @ [CHR 0x27] @ ''summary'' @ [CHR 0x27] @ '' of the invoice.''"

text \<open>The local \<^verbatim>\<open>user_prompt\<close> of \<^verbatim>\<open>call_gemini\<close> (lines 102 to 112).\<close>

definition user_prompt :: "string \<Rightarrow> string \<Rightarrow> string" where
  \<open>user_prompt document_text user_question =
     ''DOCUMENT:\<newline>"""'' @ take 30000 document_text @ ''"""\<newline>\<newline>'' @
     ''USER QUESTION:\<newline>"""'' @ user_question @ ''"""\<newline>\<newline>'' @
     ''SCHEMA:\<newline>'' @ json_dumps INVOICE_SCHEMA @ ''\<newline>\<newline>'' @
     ''STRICT RULES:\<newline>'' @
     ''- Output ONLY valid JSON.\<newline>'' @
     ''- Do NOT use backticks.\<newline>'' @
     ''- Do NOT return markdown.\<newline>'' @
     ''- Do NOT explain.\<newline>'' @
     ''- Only return JSON matching the schema.\<newline>''\<close>

text \<open>The content of the one message sent to the model (line 118).\<close>

definition model_prompt :: "string \<Rightarrow> string \<Rightarrow> string" where
  "model_prompt document_text user_question =
     SYSTEM_PROMPT @ ''\<newline>\<newline>'' @ user_prompt document_text user_question"

text \<open>The local \<^verbatim>\<open>cleaned\<close> (line 126).\<close>

definition cleaned :: "string \<Rightarrow> string" where
  "cleaned raw_text =
     py_strip (py_replace ''```'' '''' (py_replace ''```json'' '''' (py_strip raw_text)))"

text \<open>
  \<^verbatim>\<open>call_gemini\<close> (lines 101 to 130). \<open>chat_create\<close> is the call of the remote model
  together with the reading of the reply's text (lines 116 to 122): it raises, or it
  returns the text, a \<^verbatim>\<open>str\<close>. \<open>loads\<close> is \<^verbatim>\<open>json.loads\<close>.
\<close>

definition call_gemini ::
  "(string \<Rightarrow> string outcome) \<Rightarrow> (string \<Rightarrow> json outcome) \<Rightarrow> string \<Rightarrow> string
     \<Rightarrow> effect list \<times> json" where
  "call_gemini chat_create loads document_text user_question =
     (case chat_create (model_prompt document_text user_question) of
        Raises e \<Rightarrow>
          ([Model_call (model_prompt document_text user_question)],
           JObject [(''error'', JString (''Gemini API call failed: '' @ e))])
      | Returns raw_text \<Rightarrow>
          (case loads (cleaned raw_text) of
             Returns v \<Rightarrow> ([Model_call (model_prompt document_text user_question)], v)
           | Raises e \<Rightarrow>
               ([Model_call (model_prompt document_text user_question)],
                JObject [(''raw_output'', JString (cleaned raw_text)),
                         (''parse_error'', JString e)])))"

section \<open>Email automation\<close>

text \<open>The dict \<^verbatim>\<open>payload\<close> of the send branch (lines 166 to 172).\<close>

definition payload :: "string \<Rightarrow> json \<Rightarrow> string \<Rightarrow> string \<Rightarrow> string \<Rightarrow> json" where
  "payload raw_text extraction user_question recipient file_name =
     JObject
       [(''document_text'', JString (take 50000 raw_text)),
        (''extracted_json'', extraction),
        (''user_question'', JString user_question),
        (''recipient_email'', JString recipient),
        (''file_name'', JString file_name)]"

text \<open>
  The normalization of the webhook's reply to \<^verbatim>\<open>n8n_data\<close> (lines 185 to 190). A
  first element that is no dict has no \<^verbatim>\<open>get\<close>: the \<^verbatim>\<open>AttributeError\<close> is the
  outcome \<open>Raises\<close>.
\<close>

definition n8n_data :: "json \<Rightarrow> json outcome" where
  "n8n_data n8n_resp =
     (case n8n_resp of
        JArray xs \<Rightarrow>
          (case xs of
             [] \<Rightarrow> Returns (JObject [])
           | x # rest \<Rightarrow>
               (case x of
                  JObject d \<Rightarrow> Returns (dict_get_default d ''json'' x)
                | _ \<Rightarrow> Raises (no_attribute_get x)))
      | JObject d \<Rightarrow> Returns (dict_get_default d ''json'' n8n_resp)
      | _ \<Rightarrow> Returns (JObject []))"

text \<open>
  \<^verbatim>\<open>data.get(first) or data.get(second)\<close>, the form of lines 192 to 194; a
  \<open>data\<close> that is no dict has no \<^verbatim>\<open>get\<close>.
\<close>

definition get_either :: "json \<Rightarrow> string \<Rightarrow> string \<Rightarrow> json outcome" where
  "get_either data first second =
     (case data of
        JObject d \<Rightarrow> Returns (py_or (dict_get d first) (dict_get d second))
      | _ \<Rightarrow> Raises (no_attribute_get data))"

definition final_answer :: "json \<Rightarrow> json outcome" where
  "final_answer data = get_either data ''final_answer'' ''finalAnswer''"

definition email_body :: "json \<Rightarrow> json outcome" where
  "email_body data = get_either data ''email_body'' ''emailBody''"

definition status :: "json \<Rightarrow> json outcome" where
  "status data = get_either data ''automation_status'' ''status''"

text \<open>\<^verbatim>\<open>str.lower\<close> on one character, for the code points below 256.\<close>

definition py_lower :: "char \<Rightarrow> char" where
  "py_lower c =
     (let n = (of_char c :: nat)
      in if (65 \<le> n \<and> n \<le> 90) \<or> (192 \<le> n \<and> n \<le> 222 \<and> n \<noteq> 215)
         then char_of (n + 32) else c)"

text \<open>
  \<^verbatim>\<open>str(status).lower() in ["sent", "ok", "succeeded", "true"]\<close> (line 204). \<^verbatim>\<open>str\<close> of
  a string is the string and \<^verbatim>\<open>str(True)\<close> is \<^verbatim>\<open>True\<close>; \<^verbatim>\<open>str\<close> of a number, a list
  or a dict is none of the four words in any case.
\<close>

definition status_ok :: "json \<Rightarrow> bool" where
  "status_ok v =
     (case v of
        JString s \<Rightarrow> map py_lower s \<in> set [''sent'', ''ok'', ''succeeded'', ''true'']
      | JBool b \<Rightarrow> b
      | _ \<Rightarrow> False)"

text \<open>
  The processing of the reply (lines 184 to 214): the three fields are read, then
  shown; an exception while they are read shows the raw reply instead.
\<close>

definition show_response :: "json \<Rightarrow> effect list" where
  "show_response n8n_resp =
     (case (case n8n_data n8n_resp of
              Raises e \<Rightarrow> Raises e
            | Returns data \<Rightarrow>
                (case final_answer data of
                   Raises e \<Rightarrow> Raises e
                 | Returns fa \<Rightarrow>
                     (case email_body data of
                        Raises e \<Rightarrow> Raises e
                      | Returns eb \<Rightarrow>
                          (case status data of
                             Raises e \<Rightarrow> Raises e
                           | Returns st \<Rightarrow> Returns (fa, eb, st))))) of
        Raises e \<Rightarrow>
          [Error (Text (''Error processing n8n response: '' @ e)),
           Subheader ''Raw n8n Response'',
           Json n8n_resp]
      | Returns (fa, eb, st) \<Rightarrow>
          [Expander ''Final Analytical Answer'',
           Info (if truthy fa then Value fa else Text ''No analytical answer returned by n8n''),
           Expander ''Generated Email Body'',
           Code (if truthy eb then Value eb else Text ''No email body returned''),
           Expander ''Email Automation Status'',
           (if truthy st then
              (if status_ok st then Success (Text_value ''Email Status: '' st)
               else Warning (Text_value ''Email Status: '' st))
            else Info (Text ''No automation status returned by n8n''))])"

text \<open>
  The branch of the send button (lines 162 to 214). \<open>N8N_WEBHOOK\<close> is the secret
  read at startup, and \<open>post\<close> is \<^verbatim>\<open>requests.post\<close> with \<^verbatim>\<open>raise_for_status\<close> and
  \<^verbatim>\<open>r.json()\<close> (lines 175 to 177): it raises, or it returns the decoded reply.
\<close>

definition send_branch ::
  "(string \<Rightarrow> json \<Rightarrow> json outcome) \<Rightarrow> string \<Rightarrow> bool \<Rightarrow> string \<Rightarrow> string \<Rightarrow> json
     \<Rightarrow> string \<Rightarrow> string \<Rightarrow> effect list" where
  "send_branch post N8N_WEBHOOK send_button recipient raw_text extraction user_question file_name =
     (if send_button then
        (if recipient = [] then
           [Warning (Text ''Please provide a recipient email before sending.'')]
         else
           [Spinner ''Calling n8n webhook...'',
            Http_post N8N_WEBHOOK
              (payload raw_text extraction user_question recipient file_name)] @
           (case post N8N_WEBHOOK
                   (payload raw_text extraction user_question recipient file_name) of
              Returns n8n_resp \<Rightarrow>
                Success (Text ''Webhook called successfully.'') # show_response n8n_resp
            | Raises e \<Rightarrow>
                Error (Text (''Failed to call n8n webhook: '' @ e)) #
                show_response (JObject [(''error'', JString e)])))
      else [])"

section \<open>Notions of the specification\<close>

text \<open>\<^verbatim>\<open>v[k]\<close> of a value, where \<open>v\<close> is a dict that has the key.\<close>

definition lookup :: "json \<Rightarrow> string \<Rightarrow> json option" where
  "lookup v k = (case v of JObject d \<Rightarrow> map_of d k | _ \<Rightarrow> None)"

text \<open>
  The three shapes of an extraction result the specification names: the error
  record, the raw-output record, and an object that conforms to \<open>INVOICE_SCHEMA\<close>
  (\<^verbatim>\<open>extracted_pairs\<close> is required and is an array of objects with the strings
  \<^verbatim>\<open>key\<close> and \<^verbatim>\<open>value\<close>; the other properties are optional and typed).
\<close>

definition is_error_record :: "json \<Rightarrow> bool" where
  "is_error_record v =
     (case v of
        JObject [(k, JString m)] \<Rightarrow> k = ''error''
      | _ \<Rightarrow> False)"

definition is_raw_output_record :: "json \<Rightarrow> bool" where
  "is_raw_output_record v =
     (case v of
        JObject [(k1, JString c), (k2, JString e)] \<Rightarrow> k1 = ''raw_output'' \<and> k2 = ''parse_error''
      | _ \<Rightarrow> False)"

definition is_json_string :: "json \<Rightarrow> bool" where
  "is_json_string v = (case v of JString s \<Rightarrow> True | _ \<Rightarrow> False)"

definition is_json_number :: "json \<Rightarrow> bool" where
  "is_json_number v = (case v of JInt i \<Rightarrow> True | JFloat lit \<Rightarrow> True | _ \<Rightarrow> False)"

definition required :: "(string \<times> json) list \<Rightarrow> string \<Rightarrow> (json \<Rightarrow> bool) \<Rightarrow> bool" where
  "required d k P = (case map_of d k of None \<Rightarrow> False | Some v \<Rightarrow> P v)"

definition optional :: "(string \<times> json) list \<Rightarrow> string \<Rightarrow> (json \<Rightarrow> bool) \<Rightarrow> bool" where
  "optional d k P = (case map_of d k of None \<Rightarrow> True | Some v \<Rightarrow> P v)"

definition conforms_pair :: "json \<Rightarrow> bool" where
  "conforms_pair v =
     (case v of
        JObject d \<Rightarrow>
          required d ''key'' is_json_string \<and> required d ''value'' is_json_string \<and>
          optional d ''confidence'' is_json_number \<and> optional d ''reason'' is_json_string
      | _ \<Rightarrow> False)"

definition conforms_pairs :: "json \<Rightarrow> bool" where
  "conforms_pairs v = (case v of JArray xs \<Rightarrow> list_all conforms_pair xs | _ \<Rightarrow> False)"

definition conforms_to_schema :: "json \<Rightarrow> bool" where
  "conforms_to_schema v =
     (case v of
        JObject d \<Rightarrow>
          required d ''extracted_pairs'' conforms_pairs \<and>
          optional d ''risk_level'' is_json_string \<and> optional d ''summary'' is_json_string
      | _ \<Rightarrow> False)"

text \<open>
  The reply with every \<^verbatim>\<open>```json\<close> and then every \<^verbatim>\<open>```\<close> removed and the white
  space around it stripped, in the specification's words.
\<close>

definition fences_removed :: "string \<Rightarrow> string" where
  "fences_removed r = py_strip (py_replace ''```'' [] (py_replace ''```json'' [] r))"

text \<open>
  The text of a page as \<^verbatim>\<open>extract_text\<close> reports it: \<^verbatim>\<open>None\<close> is a page with no
  extractable text.
\<close>

definition page_text :: "string option \<Rightarrow> string" where
  "page_text t = (case t of None \<Rightarrow> [] | Some x \<Rightarrow> x)"


text \<open>
  Two environments for the examples: a remote model that gives the same outcome to
  every prompt, and a webhook that gives the same outcome to every request.
\<close>

definition model_stub :: "string outcome \<Rightarrow> string \<Rightarrow> string outcome" where
  "model_stub r prompt = r"

definition webhook_stub :: "json outcome \<Rightarrow> string \<Rightarrow> json \<Rightarrow> json outcome" where
  "webhook_stub r url body = r"

section \<open>The send branch: payload, guard, normalization, fields\<close>

lemma show_response_no_post: "Http_post u p \<notin> set (show_response r)"
  by (simp add: show_response_def split: outcome.split prod.split)

lemma http_post_in_send_branch:
  "Http_post u p \<in> set (send_branch post url b recipient raw_text extraction q fname) \<Longrightarrow>
     b \<and> recipient \<noteq> [] \<and> u = url \<and> p = payload raw_text extraction q recipient fname"
  by (simp add: send_branch_def show_response_no_post split: if_splits outcome.splits)

lemma http_post_of_send_branch:
  "recipient \<noteq> [] \<Longrightarrow>
     Http_post url (payload raw_text extraction q recipient fname)
       \<in> set (send_branch post url True recipient raw_text extraction q fname)"
  by (simp add: send_branch_def)

lemma lookup_payload_extracted_json:
  "lookup (payload raw_text extraction q recipient fname) ''extracted_json'' = Some extraction"
  by (simp add: lookup_def payload_def)

text \<open>
  Claim C7. For every extraction result and every recipient, the field
  \<^verbatim>\<open>extracted_json\<close> of the payload the send branch builds is the extraction result
  itself, and every request the branch posts to the webhook carries it unchanged.
\<close>

theorem payload_extracted_json_is_extraction:
  "lookup (payload raw_text extraction user_question recipient file_name) ''extracted_json''
     = Some extraction \<and>
   (Http_post u p \<in> set (send_branch post url b recipient raw_text extraction user_question file_name)
      \<longrightarrow> lookup p ''extracted_json'' = Some extraction)"
  using http_post_in_send_branch [of u p post url b recipient raw_text extraction user_question file_name]
  by (auto simp: lookup_payload_extracted_json)

theorem payload_extracted_json_witness:
  "Http_post ''https://n8n.example/hook''
      (payload ''Total: 10'' (JObject [(''extracted_pairs'', JArray [])]) ''Total?'' ''a@b.c'' ''inv.txt'')
     \<in> set (send_branch (webhook_stub (Returns (JObject []))) ''https://n8n.example/hook'' True
              ''a@b.c'' ''Total: 10'' (JObject [(''extracted_pairs'', JArray [])]) ''Total?'' ''inv.txt'')
   \<and> lookup (payload ''Total: 10'' (JObject [(''extracted_pairs'', JArray [])]) ''Total?'' ''a@b.c'' ''inv.txt'')
        ''extracted_json'' = Some (JObject [(''extracted_pairs'', JArray [])])"
  using payload_extracted_json_is_extraction
    [of "''Total: 10''" "JObject [(''extracted_pairs'', JArray [])]" "''Total?''" "''a@b.c''" "''inv.txt''"]
  by (simp add: http_post_of_send_branch)

text \<open>
  Claim C8. When the send button is pressed with an empty recipient, the branch
  shows the warning and nothing else, so no request goes to the webhook; and
  whenever the branch does post to the webhook, the recipient is not empty.
\<close>

theorem empty_recipient_no_post:
  "send_branch post url True [] raw_text extraction user_question file_name
     = [Warning (Text ''Please provide a recipient email before sending.'')] \<and>
   filter is_http_post (send_branch post url True [] raw_text extraction user_question file_name) = [] \<and>
   (Http_post u p \<in> set (send_branch post url b recipient raw_text extraction user_question file_name)
      \<longrightarrow> recipient \<noteq> [])"
proof -
  have "send_branch post url True [] raw_text extraction user_question file_name
     = [Warning (Text ''Please provide a recipient email before sending.'')]"
    by (simp add: send_branch_def)
  moreover have "filter is_http_post [Warning (Text ''Please provide a recipient email before sending.'')] = []"
    by (simp add: is_http_post_def)
  moreover have "Http_post u p \<in> set (send_branch post url b recipient raw_text extraction user_question file_name)
      \<longrightarrow> recipient \<noteq> []"
    using http_post_in_send_branch [of u p post url b recipient raw_text extraction user_question file_name]
    by blast
  ultimately show ?thesis by simp
qed

theorem empty_recipient_no_post_witness:
  "send_branch (webhook_stub (Returns (JObject []))) ''https://n8n.example/hook'' True [] ''Total: 10''
      (JObject [(''extracted_pairs'', JArray [])]) ''Total?'' ''inv.txt''
     = [Warning (Text ''Please provide a recipient email before sending.'')] \<and>
   Http_post ''https://n8n.example/hook''
      (payload ''Total: 10'' (JObject [(''extracted_pairs'', JArray [])]) ''Total?'' ''a@b.c'' ''inv.txt'')
     \<in> set (send_branch (webhook_stub (Returns (JObject []))) ''https://n8n.example/hook'' True
              ''a@b.c'' ''Total: 10'' (JObject [(''extracted_pairs'', JArray [])]) ''Total?'' ''inv.txt'') \<and>
   ''a@b.c'' \<noteq> []"
  using empty_recipient_no_post
    [of "webhook_stub (Returns (JObject []))" "''https://n8n.example/hook''" "''Total: 10''"
        "JObject [(''extracted_pairs'', JArray [])]" "''Total?''" "''inv.txt''"]
  by (simp add: http_post_of_send_branch)



text \<open>
  The restriction to flat objects matters: the normalization removes one \<^verbatim>\<open>json\<close>
  wrapper only, so a reply wrapped twice is not in normal form after one step.
\<close>

lemma normalization_unwraps_one_level:
  "n8n_data (JObject [(''json'', JObject [(''json'', JObject [])])]) = Returns (JObject [(''json'', JObject [])]) \<and>
   n8n_data (JObject [(''json'', JObject [])]) = Returns (JObject [])"
  by (simp add: n8n_data_def dict_get_default_def)

lemma get_either_dict:
  "get_either (JObject d) a b =
     Returns (if truthy (dict_get d a) then dict_get d a else dict_get d b)"
  by (simp add: get_either_def py_or_def)

lemma get_either_first:
  "map_of d a = Some x \<Longrightarrow> truthy x \<Longrightarrow> get_either (JObject d) a b = Returns x"
  by (simp add: get_either_def py_or_def dict_get_def)

text \<open>
  Claim C6, as stated, fails: with both spellings present and an empty string under
  \<^verbatim>\<open>final_answer\<close>, the value under \<^verbatim>\<open>finalAnswer\<close> is the one used.
\<close>

theorem camel_case_used_when_snake_case_falsy:
  "final_answer (JObject [(''final_answer'', JString ''''), (''finalAnswer'', JString ''camel'')])
     = Returns (JString ''camel'')"
  by (simp add: final_answer_def get_either_def py_or_def dict_get_def)

text \<open>
  Claim C6, amended. The final answer is read under \<^verbatim>\<open>final_answer\<close> and then
  \<^verbatim>\<open>finalAnswer\<close>, the email body under \<^verbatim>\<open>email_body\<close> and then \<^verbatim>\<open>emailBody\<close>, the
  status under \<^verbatim>\<open>automation_status\<close> and then \<^verbatim>\<open>status\<close>. The value under the first
  name is used when it is truthy, and otherwise the value under the second name; so
  a first name that is present with a truthy value always wins.
\<close>

theorem fields_first_truthy_spelling:
  "final_answer (JObject d) =
     Returns (if truthy (dict_get d ''final_answer'') then dict_get d ''final_answer''
              else dict_get d ''finalAnswer'') \<and>
   email_body (JObject d) =
     Returns (if truthy (dict_get d ''email_body'') then dict_get d ''email_body''
              else dict_get d ''emailBody'') \<and>
   status (JObject d) =
     Returns (if truthy (dict_get d ''automation_status'') then dict_get d ''automation_status''
              else dict_get d ''status'') \<and>
   (map_of d ''final_answer'' = Some x \<and> truthy x \<longrightarrow> final_answer (JObject d) = Returns x) \<and>
   (map_of d ''email_body'' = Some y \<and> truthy y \<longrightarrow> email_body (JObject d) = Returns y) \<and>
   (map_of d ''automation_status'' = Some z \<and> truthy z \<longrightarrow> status (JObject d) = Returns z)"
  unfolding final_answer_def email_body_def status_def
  using get_either_first [of d "''final_answer''" x "''finalAnswer''"]
        get_either_first [of d "''email_body''" y "''emailBody''"]
        get_either_first [of d "''automation_status''" z "''status''"]
  by (simp only: get_either_dict) blast

theorem fields_first_truthy_spelling_witness:
  "final_answer (JObject [(''final_answer'', JString ''snake''), (''finalAnswer'', JString ''camel''),
       (''email_body'', JString ''body''), (''emailBody'', JString ''Body''),
       (''automation_status'', JString ''sent''), (''status'', JString ''failed'')]) = Returns (JString ''snake'') \<and>
   email_body (JObject [(''final_answer'', JString ''snake''), (''finalAnswer'', JString ''camel''),
       (''email_body'', JString ''body''), (''emailBody'', JString ''Body''),
       (''automation_status'', JString ''sent''), (''status'', JString ''failed'')]) = Returns (JString ''body'') \<and>
   status (JObject [(''final_answer'', JString ''snake''), (''finalAnswer'', JString ''camel''),
       (''email_body'', JString ''body''), (''emailBody'', JString ''Body''),
       (''automation_status'', JString ''sent''), (''status'', JString ''failed'')]) = Returns (JString ''sent'')"
  using fields_first_truthy_spelling
    [of "[(''final_answer'', JString ''snake''), (''finalAnswer'', JString ''camel''),
       (''email_body'', JString ''body''), (''emailBody'', JString ''Body''),
       (''automation_status'', JString ''sent''), (''status'', JString ''failed'')]"
       "JString ''snake''" "JString ''body''" "JString ''sent''"]
  by (simp add: dict_get_def)

section \<open>Text extraction from a PDF\<close>

lemma plumber_loop_returns:
  "plumber_loop (map Returns ts) acc = (acc @ filter (\<lambda>t. t \<noteq> []) (map page_text ts), None)"
proof (induction ts arbitrary: acc)
  case Nil
  show ?case by simp
next
  case (Cons t ts)
  show ?case by (cases t) (simp_all add: Cons.IH page_text_def)
qed

lemma fitz_loop_returns: "fitz_loop (map Returns fs) acc = (acc @ fs, None)"
  by (induction fs arbitrary: acc) simp_all

lemma filter_nonempty_id: "list_all (\<lambda>t. t \<noteq> []) fs \<Longrightarrow> filter (\<lambda>t. t \<noteq> []) fs = fs"
  by (induction fs) simp_all

text \<open>
  What the function returns when a library reads every page. With \<^verbatim>\<open>pdfplumber\<close>
  reading all pages, it is the concatenation, in page order, of the page texts that
  are not empty, joined by a blank line, and nothing is shown. With \<^verbatim>\<open>pdfplumber\<close>
  raising on opening the file and the fallback reading all pages, a warning is shown
  and the result is the join of all the fallback's page texts; it is the same
  concatenation when none of them is empty.
\<close>

lemma extract_text_from_pdf_result:
  "extract_text_from_pdf (Returns (map Returns ts)) fitz
     = ([], page_concatenation (map page_text ts)) \<and>
   extract_text_from_pdf (Raises e) (Returns (map Returns fs, Returns ()))
     = ([Warning (Text (''pdfplumber failed: '' @ e))], py_join ''\<newline>\<newline>'' fs) \<and>
   (list_all (\<lambda>t. t \<noteq> []) fs \<longrightarrow>
      snd (extract_text_from_pdf (Raises e) (Returns (map Returns fs, Returns ())))
        = page_concatenation fs)"
  by (simp add: extract_text_from_pdf_def plumber_loop_returns fitz_loop_returns
        page_concatenation_def filter_nonempty_id)

lemma extract_text_from_pdf_example:
  "extract_text_from_pdf (Returns [Returns (Some ''Invoice 7''), Returns None, Returns (Some []),
        Returns (Some ''Total: 10'')]) (Raises ''unused'')
     = ([], ''Invoice 7\<newline>\<newline>Total: 10'')"
  using extract_text_from_pdf_result
          [of "[Some ''Invoice 7'', None, Some [], Some ''Total: 10'']" "Raises ''unused''"]
  by (simp add: page_concatenation_def page_text_def)

text \<open>
  Claim C2. The result is the concatenation of the page texts in page order, joined
  by a blank line, the pages with no text left out; and when the primary method
  raises, the fallback produces the same concatenation. The function departs from
  this on the fallback path, in two ways. The list \<^verbatim>\<open>text_chunks\<close> is not reset
  before the fallback loop: when \<^verbatim>\<open>pdfplumber\<close> raises after it read the first page,
  that page stays in front of the fallback's pages and its text comes twice. And the
  fallback loop, unlike the primary one, appends the text of a page with no text.
\<close>

theorem fallback_departs_from_page_concatenation:
  "extract_text_from_pdf (Returns [Returns (Some ''p1''), Raises ''bad page''])
      (Returns ([Returns ''p1'', Returns ''p2''], Returns ()))
     = ([Warning (Text ''pdfplumber failed: bad page'')], ''p1\<newline>\<newline>p1\<newline>\<newline>p2'') \<and>
   page_concatenation [''p1'', ''p2''] = ''p1\<newline>\<newline>p2'' \<and>
   extract_text_from_pdf (Raises ''bad xref'')
      (Returns ([Returns ''a'', Returns [], Returns ''b''], Returns ()))
     = ([Warning (Text ''pdfplumber failed: bad xref'')], ''a\<newline>\<newline>\<newline>\<newline>b'') \<and>
   page_concatenation [''a'', [], ''b''] = ''a\<newline>\<newline>b''"
  by (simp add: extract_text_from_pdf_def page_concatenation_def)

section \<open>The prompt\<close>

lemma model_call_of_call_gemini:
  "fst (call_gemini chat_create loads d q) = [Model_call (model_prompt d q)]"
  by (simp add: call_gemini_def split: outcome.split)

lemma user_prompt_splice:
  \<open>user_prompt d q = ''DOCUMENT:\<newline>"""'' @ take 30000 d @ drop 13 (user_prompt [] q)\<close>
  by (simp add: user_prompt_def)

lemma user_prompt_length:
  "length (user_prompt d q) = length (user_prompt [] q) + min 30000 (length d)"
  by (simp add: user_prompt_def min_def)

text \<open>
  Claim C3. The prompt is a function of the document text and the question alone
  (the schema is the constant \<open>INVOICE_SCHEMA\<close>): whatever the remote model and the
  decoder do, the one message sent is \<open>SYSTEM_PROMPT\<close>, a blank line and
  \<open>user_prompt\<close>. The document enters \<open>user_prompt\<close> through its first 30,000
  characters only, placed after the opening delimiter: a longer document is cut to
  exactly these, and the prompt is longer than the prompt of the empty document by
  the smaller of 30,000 and the length of the document.
\<close>

theorem prompt_is_function_of_truncated_text:
  \<open>fst (call_gemini chat_create loads document_text user_question)
     = [Model_call (SYSTEM_PROMPT @ ''\<newline>\<newline>'' @ user_prompt document_text user_question)] \<and>
   user_prompt document_text user_question
     = ''DOCUMENT:\<newline>"""'' @ take 30000 document_text @ drop 13 (user_prompt [] user_question) \<and>
   user_prompt document_text user_question = user_prompt (take 30000 document_text) user_question \<and>
   length (user_prompt document_text user_question)
     = length (user_prompt [] user_question) + min 30000 (length document_text)\<close>
proof -
  have "user_prompt document_text user_question = user_prompt (take 30000 document_text) user_question"
    by (simp add: user_prompt_def)
  then show ?thesis
    using model_call_of_call_gemini [of chat_create loads document_text user_question]
          user_prompt_splice [of document_text user_question]
          user_prompt_length [of document_text user_question]
    by (simp add: model_prompt_def)
qed

text \<open>The text of the schema inside the prompt.\<close>

lemma schema_text:
  \<open>json_dumps INVOICE_SCHEMA =
     ''{"title": "InvoiceExtraction", "type": "object", "properties": {"extracted_pairs": {"type": "array", "items": {"type": "object", "properties": {"key": {"type": "string"}, "value": {"type": "string"}, "confidence": {"type": "number"}, "reason": {"type": "string"}}, "required": ["key", "value"]}}, "risk_level": {"type": "string"}, "summary": {"type": "string"}}, "required": ["extracted_pairs"]}''\<close>
  by code_simp

theorem prompt_truncation_witness:
  \<open>length (user_prompt (replicate 30001 CHR ''x'') ''Total?'')
     = length (user_prompt [] ''Total?'') + 30000 \<and>
   user_prompt (replicate 30001 CHR ''x'') ''Total?'' = user_prompt (replicate 30000 CHR ''x'') ''Total?''\<close>
proof -
  note t = prompt_is_function_of_truncated_text
    [of "model_stub (Raises ''timeout'')" "json_loads ''no JSON''" "replicate 30001 CHR ''x''" "''Total?''"]
  from t have "length (user_prompt (replicate 30001 CHR ''x'') ''Total?'')
     = length (user_prompt [] ''Total?'') + min 30000 (length (replicate 30001 CHR ''x''))"
    by blast
  moreover from t have "user_prompt (replicate 30001 CHR ''x'') ''Total?''
     = user_prompt (take 30000 (replicate 30001 CHR ''x'')) ''Total?''"
    by blast
  ultimately show ?thesis by simp
qed

section \<open>Removing the code fences from the reply\<close>

text \<open>Facts about \<open>py_replace\<close> and \<open>py_strip\<close> on which the claims about \<open>cleaned\<close> rest.\<close>

lemma replace_absent:
  "\<not> sublist (a # p) s \<Longrightarrow> py_replace (a # p) new s = s"
  by (induction s) (auto simp: sublist_Cons_right)

lemma py_replace_match:
  "prefix (a # old) (c # cs) \<Longrightarrow>
     py_replace (a # old) [] (c # cs) = py_replace (a # old) [] (drop (length old) cs)"
  by (simp only: py_replace.simps if_True append_Nil)

lemma py_replace_no_match:
  "\<not> prefix (a # old) (c # cs) \<Longrightarrow>
     py_replace (a # old) new (c # cs) = c # py_replace (a # old) new cs"
  by (simp only: py_replace.simps if_False)

lemma no_fence_step:
  assumes "\<not> prefix ''```'' (c # cs)"
  shows "\<not> prefix ''```'' (c # py_replace ''```'' [] cs)"
proof (cases cs)
  case Nil
  then show ?thesis by simp
next
  case (Cons d ds)
  note cs = this
  show ?thesis
  proof (cases ds)
    case Nil
    with cs assms show ?thesis by simp
  next
    case (Cons e es)
    with cs assms show ?thesis by (cases es) auto
  qed
qed

lemma no_fence_left: "\<not> sublist ''```'' (py_replace ''```'' [] s)"
proof (induction s rule: length_induct)
  case (1 s)
  show ?case
  proof (cases s)
    case Nil
    then show ?thesis by simp
  next
    case (Cons c cs)
    show ?thesis
    proof (cases "prefix ''```'' (c # cs)")
      case True
      have "length (drop (length ''``'') cs) < length s" using Cons by simp
      with 1 have "\<not> sublist ''```'' (py_replace ''```'' [] (drop (length ''``'') cs))" by blast
      then show ?thesis
        unfolding Cons py_replace_match [OF True] .
    next
      case False
      have "length cs < length s" using Cons by simp
      with 1 have "\<not> sublist ''```'' (py_replace ''```'' [] cs)" by blast
      with no_fence_step [OF False] show ?thesis
        unfolding Cons py_replace_no_match [OF False] sublist_Cons_right by blast
    qed
  qed
qed

lemma replace_after_spaces:
  "\<forall>c\<in>set ws. py_space c \<Longrightarrow> \<not> py_space a \<Longrightarrow>
     py_replace (a # p) new (ws @ s) = ws @ py_replace (a # p) new s"
  by (induction ws) auto

lemma prefix_before_spaces:
  assumes ws: "\<forall>c\<in>set ws. py_space c" and pat: "\<forall>c\<in>set pat. \<not> py_space c"
  shows "prefix pat (s @ ws) \<longleftrightarrow> prefix pat s"
proof
  assume "prefix pat (s @ ws)"
  then have "prefix pat s \<or> (\<exists>us. pat = s @ us \<and> prefix us ws)"
    by (simp add: prefix_append)
  then show "prefix pat s"
  proof
    assume "prefix pat s"
    then show ?thesis .
  next
    assume "\<exists>us. pat = s @ us \<and> prefix us ws"
    then obtain us where us: "pat = s @ us" "prefix us ws" by blast
    show ?thesis
    proof (cases us)
      case Nil
      with us show ?thesis by simp
    next
      case (Cons u us')
      with us have "u \<in> set pat" "u \<in> set ws" by (auto dest: set_mono_prefix)
      with ws pat show ?thesis by blast
    qed
  qed
next
  assume "prefix pat s"
  then show "prefix pat (s @ ws)" by (rule prefix_prefix)
qed

lemma replace_before_spaces:
  assumes ws: "\<forall>c\<in>set ws. py_space c" and pat: "\<forall>c\<in>set (a # p). \<not> py_space c"
  shows "py_replace (a # p) [] (s @ ws) = py_replace (a # p) [] s @ ws"
proof (induction s rule: length_induct)
  case (1 s)
  show ?case
  proof (cases s)
    case Nil
    have "\<not> sublist (a # p) ws"
    proof
      assume "sublist (a # p) ws"
      then have "set (a # p) \<subseteq> set ws" by (rule set_mono_sublist)
      with ws pat show False by auto
    qed
    then show ?thesis using Nil by (simp add: replace_absent)
  next
    case (Cons c cs)
    show ?thesis
    proof (cases "prefix (a # p) (c # cs)")
      case True
      then have len: "length p \<le> length cs" by (auto dest: prefix_length_le)
      from True have m: "prefix (a # p) (c # (cs @ ws))"
        using prefix_before_spaces [OF ws pat, of "c # cs"] by simp
      have "length (drop (length p) cs) < length s" using Cons by simp
      with 1 have "py_replace (a # p) [] (drop (length p) cs @ ws)
                     = py_replace (a # p) [] (drop (length p) cs) @ ws" by blast
      with len show ?thesis
        unfolding Cons append_Cons py_replace_match [OF True] py_replace_match [OF m] by simp
    next
      case False
      then have m: "\<not> prefix (a # p) (c # (cs @ ws))"
        using prefix_before_spaces [OF ws pat, of "c # cs"] by simp
      have "length cs < length s" using Cons by simp
      with 1 have "py_replace (a # p) [] (cs @ ws) = py_replace (a # p) [] cs @ ws" by blast
      then show ?thesis
        unfolding Cons append_Cons py_replace_no_match [OF False] py_replace_no_match [OF m] by simp
    qed
  qed
qed

lemma strip_all_space: "\<forall>c\<in>set xs. py_space c \<Longrightarrow> py_strip xs = []"
proof -
  assume "\<forall>c\<in>set xs. py_space c"
  then have d: "dropWhile py_space xs = []" by (induction xs) auto
  show ?thesis unfolding py_strip_def d by simp
qed

lemma strip_spaces_around:
  assumes "\<forall>c\<in>set ws1. py_space c" "\<forall>c\<in>set ws2. py_space c"
  shows "py_strip (ws1 @ s @ ws2) = py_strip s"
proof -
  have a: "dropWhile py_space (ws1 @ t) = dropWhile py_space t" for t
    using assms(1) by (simp add: dropWhile_append)
  have b: "dropWhile py_space (rev ws2 @ t) = dropWhile py_space t" for t
    using assms(2) by (simp add: dropWhile_append)
  have c: "dropWhile py_space (t @ ws2) = dropWhile py_space t @ (if \<forall>c\<in>set t. py_space c then [] else ws2)" for t
    using assms(2) by (induction t) auto
  show ?thesis
  proof (cases "\<forall>c\<in>set s. py_space c")
    case True
    have "\<forall>c\<in>set (ws1 @ s @ ws2). py_space c" using assms True by auto
    then have "py_strip (ws1 @ s @ ws2) = []" by (rule strip_all_space)
    moreover have "py_strip s = []" using True by (rule strip_all_space)
    ultimately show ?thesis by simp
  next
    case False
    then show ?thesis by (simp add: py_strip_def a b c)
  qed
qed

lemma strip_decomposition:
  "s = takeWhile py_space s @ py_strip s @ rev (takeWhile py_space (rev (dropWhile py_space s)))"
proof -
  have "rev (dropWhile py_space s)
          = takeWhile py_space (rev (dropWhile py_space s)) @ dropWhile py_space (rev (dropWhile py_space s))"
    by simp
  then have "dropWhile py_space s
          = py_strip s @ rev (takeWhile py_space (rev (dropWhile py_space s)))"
    unfolding py_strip_def by (metis rev_append rev_rev_ident)
  then show ?thesis by (metis takeWhile_dropWhile_id)
qed

text \<open>
  The strip before the two replacements changes nothing: the white space at the ends
  is no part of a fence, and the strip after the replacements removes it.
\<close>

lemma cleaned_eq_fences_removed: "cleaned r = fences_removed r"
proof -
  define ws1 where "ws1 = takeWhile py_space r"
  define ws2 where "ws2 = rev (takeWhile py_space (rev (dropWhile py_space r)))"
  have r: "r = ws1 @ py_strip r @ ws2"
    unfolding ws1_def ws2_def by (rule strip_decomposition)
  have w1: "\<forall>c\<in>set ws1. py_space c" unfolding ws1_def by (auto dest: set_takeWhileD)
  have w2: "\<forall>c\<in>set ws2. py_space c" unfolding ws2_def by (auto dest: set_takeWhileD)
  have p1: "\<forall>c\<in>set ''```json''. \<not> py_space c" by (simp add: py_space_def)
  have p2: "\<forall>c\<in>set ''```''. \<not> py_space c" by (simp add: py_space_def)
  have n: "\<not> py_space CHR 0x60" by (simp add: py_space_def)
  have "py_replace ''```json'' [] (ws1 @ py_strip r @ ws2)
          = ws1 @ py_replace ''```json'' [] (py_strip r) @ ws2"
    using replace_after_spaces [OF w1 n] replace_before_spaces [OF w2 p1] by simp
  moreover have "py_replace ''```'' [] (ws1 @ py_replace ''```json'' [] (py_strip r) @ ws2)
          = ws1 @ py_replace ''```'' [] (py_replace ''```json'' [] (py_strip r)) @ ws2"
    using replace_after_spaces [OF w1 n] replace_before_spaces [OF w2 p2] by simp
  ultimately have "fences_removed (ws1 @ py_strip r @ ws2) = cleaned r"
    unfolding fences_removed_def cleaned_def using strip_spaces_around [OF w1 w2] by simp
  with r show ?thesis by simp
qed

lemma strip_sublist: "sublist (py_strip s) s"
proof -
  have "sublist (py_strip s) (takeWhile py_space s @ py_strip s @ rev (takeWhile py_space (rev (dropWhile py_space s))))"
    by (rule sublist_appendI)
  then show ?thesis using strip_decomposition [of s] by simp
qed

text \<open>No fence is left in the cleaned text, wherever it stood in the reply.\<close>

lemma no_fence_in_cleaned: "\<not> sublist ''```'' (cleaned r)"
proof
  assume "sublist ''```'' (cleaned r)"
  moreover have "sublist (cleaned r) (py_replace ''```'' [] (py_replace ''```json'' [] (py_strip r)))"
    unfolding cleaned_def by (rule strip_sublist)
  ultimately have "sublist ''```'' (py_replace ''```'' [] (py_replace ''```json'' [] (py_strip r)))"
    by (rule sublist_order.order.trans)
  then show False using no_fence_left by blast
qed

lemma no_json_fence_before_fence:
  assumes "\<not> sublist ''```'' s"
  shows "\<not> sublist ''```json'' (s @ ''```'')"
proof
  assume "sublist ''```json'' (s @ ''```'')"
  then obtain ps ss where e: "s @ ''```'' = ps @ ''```json'' @ ss"
    by (auto simp: sublist_def)
  from arg_cong [OF e, of length] have "length s + 3 = length ps + 7 + length ss"
    by simp
  then have len: "length (ps @ ''```'') \<le> length s" by simp
  have "prefix (ps @ ''```'') (s @ ''```'')" unfolding e by simp
  moreover have "prefix s (s @ ''```'')" by simp
  ultimately have "prefix (ps @ ''```'') s" using len by (rule prefix_length_prefix)
  then have "sublist ''```'' s" by (auto simp: prefix_def sublist_def)
  with assms show False by blast
qed

lemma fence_removed_after:
  "\<not> sublist ''```'' s \<Longrightarrow> py_replace ''```'' [] (s @ ''```'') = s"
proof (induction s)
  case Nil
  show ?case by simp
next
  case (Cons c cs)
  from Cons.prems have np: "\<not> prefix ''```'' (c # cs)" and ns: "\<not> sublist ''```'' cs"
    by (simp_all add: sublist_Cons_right)
  from Cons.IH [OF ns] have ih: "py_replace ''```'' [] (cs @ ''```'') = cs" .
  show ?case
  proof (cases "prefix ''```'' (c # cs @ ''```'')")
    case False
    with ih show ?thesis
      unfolding append_Cons py_replace_no_match [OF False] by simp
  next
    case True
    show ?thesis
    proof (cases cs)
      case Nil
      with True have "c = CHR 0x60" by auto
      with Nil show ?thesis by simp
    next
      case (Cons d ds)
      note cs = this
      show ?thesis
      proof (cases ds)
        case Nil
        with cs True have "c = CHR 0x60" "d = CHR 0x60" by auto
        with cs Nil show ?thesis by simp
      next
        case (Cons e es)
        with cs True have "prefix ''```'' (c # cs)" by auto
        with np show ?thesis by blast
      qed
    qed
  qed
qed

text \<open>A reply in fences, whose inner text has no fence of its own, is cleaned to the inner text.\<close>

lemma cleaned_fenced:
  assumes "\<not> sublist ''```'' inner"
  shows "cleaned (''```json'' @ inner @ ''```'') = py_strip inner"
proof -
  have m: "prefix ''```json'' (CHR 0x60 # ''``json'' @ inner @ ''```'')" by simp
  have "py_replace ''```json'' [] (''```json'' @ inner @ ''```'')
          = py_replace ''```json'' [] (inner @ ''```'')"
    using py_replace_match [OF m] by simp
  also have "\<dots> = inner @ ''```''"
    using no_json_fence_before_fence [OF assms] by (rule replace_absent)
  finally have "fences_removed (''```json'' @ inner @ ''```'') = py_strip inner"
    unfolding fences_removed_def using fence_removed_after [OF assms] by simp
  then show ?thesis by (simp only: cleaned_eq_fences_removed)
qed

section \<open>The extraction call\<close>

lemma call_gemini_raises:
  "chat_create (model_prompt d q) = Raises e \<Longrightarrow>
     snd (call_gemini chat_create loads d q)
       = JObject [(''error'', JString (''Gemini API call failed: '' @ e))]"
  by (simp add: call_gemini_def)

lemma call_gemini_unparsed:
  "chat_create (model_prompt d q) = Returns r \<Longrightarrow> loads (cleaned r) = Raises e \<Longrightarrow>
     snd (call_gemini chat_create loads d q)
       = JObject [(''raw_output'', JString (cleaned r)), (''parse_error'', JString e)]"
  by (simp add: call_gemini_def)

lemma call_gemini_parsed:
  "chat_create (model_prompt d q) = Returns r \<Longrightarrow> loads (cleaned r) = Returns v \<Longrightarrow>
     snd (call_gemini chat_create loads d q) = v"
  by (simp add: call_gemini_def)

text \<open>The replies of the examples below, cleaned and read.\<close>

lemma cleaned_examples:
  \<open>cleaned ''{"note": "a```b"}'' = ''{"note": "ab"}''\<close>
  \<open>cleaned ''```json {"code": "a```b"} ```'' = ''{"code": "ab"}''\<close>
  \<open>cleaned ''{"summary": "n/a"}'' = ''{"summary": "n/a"}''\<close>
  \<open>cleaned ''not json'' = ''not json''\<close>
  \<open>cleaned ''{"extracted_pairs": []}'' = ''{"extracted_pairs": []}''\<close>
  \<open>cleaned ''{"extracted_pairs": [], "risk_level": "Low"}'' = ''{"extracted_pairs": [], "risk_level": "Low"}''\<close>
  \<open>cleaned ''{"extracted_pairs": [], "risk_level": "High"}'' = ''{"extracted_pairs": [], "risk_level": "High"}''\<close>
  \<open>py_strip '' {"extracted_pairs":[]} '' = ''{"extracted_pairs":[]}''\<close>
  by code_simp+

lemma read_json_examples:
  \<open>read_json ''{"note": "a```b"}'' = Some (JObject [(''note'', JString ''a```b'')])\<close>
  \<open>read_json ''{"note": "ab"}'' = Some (JObject [(''note'', JString ''ab'')])\<close>
  \<open>read_json '' {"code": "a```b"} '' = Some (JObject [(''code'', JString ''a```b'')])\<close>
  \<open>read_json ''{"code": "ab"}'' = Some (JObject [(''code'', JString ''ab'')])\<close>
  \<open>read_json ''{"summary": "n/a"}'' = Some (JObject [(''summary'', JString ''n/a'')])\<close>
  \<open>read_json ''not json'' = None\<close>
  \<open>read_json ''{"extracted_pairs": []}'' = Some (JObject [(''extracted_pairs'', JArray [])])\<close>
  \<open>read_json ''{"extracted_pairs":[]}'' = Some (JObject [(''extracted_pairs'', JArray [])])\<close>
  \<open>read_json ''{"extracted_pairs": [], "risk_level": "Low"}''
     = Some (JObject [(''extracted_pairs'', JArray []), (''risk_level'', JString ''Low'')])\<close>
  \<open>read_json ''{"extracted_pairs": [], "risk_level": "High"}''
     = Some (JObject [(''extracted_pairs'', JArray []), (''risk_level'', JString ''High'')])\<close>
  by code_simp+

lemma no_fence_in_example: \<open>\<not> sublist ''```'' '' {"extracted_pairs":[]} ''\<close>
  by code_simp

text \<open>The thresholds of the risk level are sentences of the system prompt.\<close>

lemma thresholds_in_system_prompt:
  "sublist ''High: total amount greater than 50,000; '' SYSTEM_PROMPT"
  "sublist ''Medium: total amount between 5,000 and 50,000; '' SYSTEM_PROMPT"
  "sublist ''Low: total amount less than 5,000; '' SYSTEM_PROMPT"
  "sublist (''Use '' @ [CHR 0x27] @ ''Unknown'' @ [CHR 0x27] @
            '' if the total amount cannot be determined. '') SYSTEM_PROMPT"
  by code_simp+

text \<open>
  Claim C10. For every reply \<open>r\<close> of the model, the text handed to the JSON parser
  is \<open>r\<close> with every \<^verbatim>\<open>```json\<close> and then every \<^verbatim>\<open>```\<close> removed and the white space
  around it stripped. The removal is global: no \<^verbatim>\<open>```\<close> is left anywhere in the
  text, so a fence inside a JSON string of the reply is removed too, and the value
  parsed is not the value the reply spelt.
\<close>

theorem fences_removed_everywhere:
  "cleaned r = fences_removed r \<and>
   \<not> sublist ''```'' (cleaned r) \<and>
   (chat_create (model_prompt d q) = Returns r \<longrightarrow>
      snd (call_gemini chat_create loads d q) =
        (case loads (fences_removed r) of
           Returns v \<Rightarrow> v
         | Raises e \<Rightarrow>
             JObject [(''raw_output'', JString (fences_removed r)), (''parse_error'', JString e)]))"
proof (intro conjI impI)
  show "cleaned r = fences_removed r" by (rule cleaned_eq_fences_removed)
  show "\<not> sublist ''```'' (cleaned r)" by (rule no_fence_in_cleaned)
next
  assume c: "chat_create (model_prompt d q) = Returns r"
  show "snd (call_gemini chat_create loads d q) =
        (case loads (fences_removed r) of
           Returns v \<Rightarrow> v
         | Raises e \<Rightarrow>
             JObject [(''raw_output'', JString (fences_removed r)), (''parse_error'', JString e)])"
    using c by (simp add: call_gemini_def cleaned_eq_fences_removed split: outcome.split)
qed

theorem fences_removed_everywhere_witness:
  \<open>model_stub (Returns ''{"note": "a```b"}'') (model_prompt ''Invoice'' ''Total?'')
     = Returns ''{"note": "a```b"}'' \<and>
   read_json ''{"note": "a```b"}'' = Some (JObject [(''note'', JString ''a```b'')]) \<and>
   cleaned ''{"note": "a```b"}'' = ''{"note": "ab"}'' \<and>
   snd (call_gemini (model_stub (Returns ''{"note": "a```b"}'')) (json_loads ''Expecting value'')
          ''Invoice'' ''Total?'')
     = JObject [(''note'', JString ''ab'')]\<close>
proof -
  note t = fences_removed_everywhere
    [of \<open>''{"note": "a```b"}''\<close> \<open>model_stub (Returns ''{"note": "a```b"}'')\<close>
        "''Invoice''" "''Total?''" "json_loads ''Expecting value''"]
  have m: \<open>model_stub (Returns ''{"note": "a```b"}'') (model_prompt ''Invoice'' ''Total?'')
     = Returns ''{"note": "a```b"}''\<close>
    by (simp add: model_stub_def)
  from t have f: \<open>fences_removed ''{"note": "a```b"}'' = ''{"note": "ab"}''\<close>
    by (simp only: cleaned_examples)
  from t m have \<open>snd (call_gemini (model_stub (Returns ''{"note": "a```b"}''))
          (json_loads ''Expecting value'') ''Invoice'' ''Total?'')
        = (case json_loads ''Expecting value'' (fences_removed ''{"note": "a```b"}'') of
           Returns v \<Rightarrow> v
         | Raises e \<Rightarrow>
             JObject [(''raw_output'', JString (fences_removed ''{"note": "a```b"}'')),
                      (''parse_error'', JString e)])\<close>
    by blast
  then have \<open>snd (call_gemini (model_stub (Returns ''{"note": "a```b"}''))
          (json_loads ''Expecting value'') ''Invoice'' ''Total?'')
        = JObject [(''note'', JString ''ab'')]\<close>
    by (simp only: f json_loads_def read_json_examples option.case outcome.case)
  with m show ?thesis by (simp only: read_json_examples cleaned_examples simp_thms)
qed

text \<open>
  Claim C4, as stated, fails: a reply that is valid JSON between fence markers, with
  a \<^verbatim>\<open>```\<close> inside one of its strings, does not yield the value of the inner JSON.
\<close>

theorem inner_fence_is_lost:
  \<open>read_json '' {"code": "a```b"} '' = Some (JObject [(''code'', JString ''a```b'')]) \<and>
   snd (call_gemini (model_stub (Returns ''```json {"code": "a```b"} ```''))
          (json_loads ''Expecting value'') ''Invoice'' ''Total?'')
     = JObject [(''code'', JString ''ab'')] \<and>
   JObject [(''code'', JString ''ab'')] \<noteq> JObject [(''code'', JString ''a```b'')]\<close>
proof -
  have \<open>snd (call_gemini (model_stub (Returns ''```json {"code": "a```b"} ```''))
          (json_loads ''Expecting value'') ''Invoice'' ''Total?'')
     = JObject [(''code'', JString ''ab'')]\<close>
    by (simp add: call_gemini_def model_stub_def cleaned_examples json_loads_def read_json_examples)
  then show ?thesis by (simp add: read_json_examples)
qed

text \<open>A fenced block with white space around it, under either opening marker.\<close>

lemma cleaned_of_strip: "cleaned r = fences_removed (py_strip r)"
  by (simp add: cleaned_def fences_removed_def)

lemma json_fence_not_across_end:
  assumes "sublist ''```json'' (s @ ''```'')"
  shows "sublist ''```json'' s"
proof -
  from assms consider "sublist ''```json'' s" | "sublist ''```json'' ''```''"
    | xs1 xs2 where "''```json'' = xs1 @ xs2" "suffix xs1 s" "prefix xs2 ''```''"
    unfolding sublist_append by blast
  then show ?thesis
  proof cases
    case 1
    then show ?thesis .
  next
    case 2
    then have "length ''```json'' \<le> length ''```''" by (rule sublist_length_le)
    then show ?thesis by simp
  next
    case 3
    show ?thesis
    proof (cases "xs2 = []")
      case True
      with 3 have "suffix ''```json'' s" by simp
      then show ?thesis by (rule suffix_imp_sublist)
    next
      case False
      then have "last xs2 \<in> set xs2" by simp
      with set_mono_prefix [OF 3(3)] have "last xs2 \<in> set ''```''" by blast
      moreover from False have "last xs2 = last (xs1 @ xs2)" by simp
      then have "last xs2 = CHR ''n''" unfolding 3(1) [symmetric] by simp
      ultimately show ?thesis by simp
    qed
  qed
qed

lemma fences_removed_json_fence:
  assumes "\<not> sublist ''```'' inner"
  shows "fences_removed (''```json'' @ inner @ ''```'') = py_strip inner"
  using cleaned_fenced [OF assms] by (simp only: cleaned_eq_fences_removed)

lemma fences_removed_bare_fence:
  assumes "\<not> sublist ''```json'' (''```'' @ inner)" and "\<not> sublist ''```'' inner"
  shows "fences_removed (''```'' @ inner @ ''```'') = py_strip inner"
proof -
  have "\<not> sublist ''```json'' ((''```'' @ inner) @ ''```'')"
    using assms(1) json_fence_not_across_end by blast
  then have "\<not> sublist ''```json'' (''```'' @ inner @ ''```'')" by simp
  then have a: "py_replace ''```json'' [] (''```'' @ inner @ ''```'') = ''```'' @ inner @ ''```''"
    by (rule replace_absent)
  have m: "prefix ''```'' (CHR 0x60 # ''``'' @ inner @ ''```'')" by simp
  have "py_replace ''```'' [] (''```'' @ inner @ ''```'') = py_replace ''```'' [] (inner @ ''```'')"
    using py_replace_match [OF m] by simp
  also have "\<dots> = inner" using assms(2) by (rule fence_removed_after)
  finally show ?thesis unfolding fences_removed_def a by simp
qed

lemma fenced_examples:
  \<open>py_strip ''```json {"extracted_pairs":[]} ```'' = ''```json'' @ '' {"extracted_pairs":[]} '' @ ''```''\<close>
  \<open>py_strip ''```json\<newline>{"extracted_pairs":[]}\<newline>```\<newline>''
     = ''```json'' @ ''\<newline>{"extracted_pairs":[]}\<newline>'' @ ''```''\<close>
  \<open>py_strip ''```\<newline>{"extracted_pairs":[]}\<newline>```''
     = ''```'' @ ''\<newline>{"extracted_pairs":[]}\<newline>'' @ ''```''\<close>
  \<open>py_strip ''\<newline>{"extracted_pairs":[]}\<newline>'' = ''{"extracted_pairs":[]}''\<close>
  \<open>\<not> sublist ''```'' ''\<newline>{"extracted_pairs":[]}\<newline>''\<close>
  \<open>\<not> sublist ''```json'' (''```'' @ ''\<newline>{"extracted_pairs":[]}\<newline>'')\<close>
  by code_simp+

text \<open>
  Claim C4, amended. When the reply, with the white space around it stripped, is an
  opening fence marker, an inner text with no \<^verbatim>\<open>```\<close> in it, and the closing
  \<^verbatim>\<open>```\<close>, the text parsed is the inner text stripped, and \<open>call_gemini\<close>
  returns the value it parses to. The opening marker is \<^verbatim>\<open>```json\<close>, or a bare
  \<^verbatim>\<open>```\<close> that forms no \<^verbatim>\<open>```json\<close> with the text after it. The examples are
  the reply of the specification's scenario, the same block on lines of its own
  with a line feed after it, and a block with a bare marker: each yields the object
  with an empty \<^verbatim>\<open>extracted_pairs\<close>.
\<close>

theorem fenced_reply_parses_to_inner_value:
  assumes "py_strip r = ''```json'' @ inner @ ''```'' \<or>
           (py_strip r = ''```'' @ inner @ ''```'' \<and> \<not> sublist ''```json'' (''```'' @ inner))"
    and "\<not> sublist ''```'' inner"
    and "chat_create (model_prompt d q) = Returns r"
    and "loads (py_strip inner) = Returns v"
  shows "cleaned r = py_strip inner \<and> snd (call_gemini chat_create loads d q) = v"
proof -
  from assms(1) have c: "cleaned r = py_strip inner"
  proof
    assume "py_strip r = ''```json'' @ inner @ ''```''"
    then show ?thesis
      using fences_removed_json_fence [OF assms(2)] by (simp only: cleaned_of_strip)
  next
    assume "py_strip r = ''```'' @ inner @ ''```'' \<and> \<not> sublist ''```json'' (''```'' @ inner)"
    then have p: "py_strip r = ''```'' @ inner @ ''```''"
      and n: "\<not> sublist ''```json'' (''```'' @ inner)" by blast+
    show ?thesis
      using fences_removed_bare_fence [OF n assms(2)] by (simp only: cleaned_of_strip p)
  qed
  then have "loads (cleaned r) = Returns v" using assms(4) by (simp only:)
  with assms(3) have "snd (call_gemini chat_create loads d q) = v"
    by (rule call_gemini_parsed)
  with c show ?thesis by (rule conjI)
qed

theorem fenced_reply_witness:
  \<open>py_strip ''```json\<newline>{"extracted_pairs":[]}\<newline>```\<newline>''
     = ''```json'' @ ''\<newline>{"extracted_pairs":[]}\<newline>'' @ ''```'' \<and>
   py_strip ''```\<newline>{"extracted_pairs":[]}\<newline>```''
     = ''```'' @ ''\<newline>{"extracted_pairs":[]}\<newline>'' @ ''```'' \<and>
   \<not> sublist ''```json'' (''```'' @ ''\<newline>{"extracted_pairs":[]}\<newline>'') \<and>
   \<not> sublist ''```'' ''\<newline>{"extracted_pairs":[]}\<newline>'' \<and>
   json_loads ''Expecting value'' (py_strip ''\<newline>{"extracted_pairs":[]}\<newline>'')
     = Returns (JObject [(''extracted_pairs'', JArray [])]) \<and>
   snd (call_gemini (model_stub (Returns ''```json {"extracted_pairs":[]} ```''))
          (json_loads ''Expecting value'') ''Invoice'' ''Total?'')
     = JObject [(''extracted_pairs'', JArray [])] \<and>
   snd (call_gemini (model_stub (Returns ''```json\<newline>{"extracted_pairs":[]}\<newline>```\<newline>''))
          (json_loads ''Expecting value'') ''Invoice'' ''Total?'')
     = JObject [(''extracted_pairs'', JArray [])] \<and>
   snd (call_gemini (model_stub (Returns ''```\<newline>{"extracted_pairs":[]}\<newline>```''))
          (json_loads ''Expecting value'') ''Invoice'' ''Total?'')
     = JObject [(''extracted_pairs'', JArray [])]\<close>
proof -
  have l1: \<open>json_loads ''Expecting value'' (py_strip '' {"extracted_pairs":[]} '')
     = Returns (JObject [(''extracted_pairs'', JArray [])])\<close>
    by (simp add: json_loads_def cleaned_examples read_json_examples)
  have l2: \<open>json_loads ''Expecting value'' (py_strip ''\<newline>{"extracted_pairs":[]}\<newline>'')
     = Returns (JObject [(''extracted_pairs'', JArray [])])\<close>
    by (simp add: json_loads_def fenced_examples read_json_examples)
  have m: "model_stub (Returns r) (model_prompt ''Invoice'' ''Total?'') = Returns r" for r
    by (simp add: model_stub_def)
  have a: \<open>snd (call_gemini (model_stub (Returns ''```json {"extracted_pairs":[]} ```''))
          (json_loads ''Expecting value'') ''Invoice'' ''Total?'')
     = JObject [(''extracted_pairs'', JArray [])]\<close>
    using fenced_reply_parses_to_inner_value
      [where r = \<open>''```json {"extracted_pairs":[]} ```''\<close> and inner = \<open>'' {"extracted_pairs":[]} ''\<close>
         and chat_create = \<open>model_stub (Returns ''```json {"extracted_pairs":[]} ```'')\<close>
         and d = "''Invoice''" and q = "''Total?''" and loads = "json_loads ''Expecting value''"
         and v = "JObject [(''extracted_pairs'', JArray [])]"]
      fenced_examples(1) no_fence_in_example m l1
    by blast
  have b: \<open>snd (call_gemini (model_stub (Returns ''```json\<newline>{"extracted_pairs":[]}\<newline>```\<newline>''))
          (json_loads ''Expecting value'') ''Invoice'' ''Total?'')
     = JObject [(''extracted_pairs'', JArray [])]\<close>
    using fenced_reply_parses_to_inner_value
      [where r = \<open>''```json\<newline>{"extracted_pairs":[]}\<newline>```\<newline>''\<close>
         and inner = \<open>''\<newline>{"extracted_pairs":[]}\<newline>''\<close>
         and chat_create = \<open>model_stub (Returns ''```json\<newline>{"extracted_pairs":[]}\<newline>```\<newline>'')\<close>
         and d = "''Invoice''" and q = "''Total?''" and loads = "json_loads ''Expecting value''"
         and v = "JObject [(''extracted_pairs'', JArray [])]"]
      fenced_examples(2) fenced_examples(5) m l2
    by blast
  have c: \<open>snd (call_gemini (model_stub (Returns ''```\<newline>{"extracted_pairs":[]}\<newline>```''))
          (json_loads ''Expecting value'') ''Invoice'' ''Total?'')
     = JObject [(''extracted_pairs'', JArray [])]\<close>
    using fenced_reply_parses_to_inner_value
      [where r = \<open>''```\<newline>{"extracted_pairs":[]}\<newline>```''\<close>
         and inner = \<open>''\<newline>{"extracted_pairs":[]}\<newline>''\<close>
         and chat_create = \<open>model_stub (Returns ''```\<newline>{"extracted_pairs":[]}\<newline>```'')\<close>
         and d = "''Invoice''" and q = "''Total?''" and loads = "json_loads ''Expecting value''"
         and v = "JObject [(''extracted_pairs'', JArray [])]"]
      fenced_examples(3) fenced_examples(6) fenced_examples(5) m l2
    by blast
  from a b c l2 fenced_examples(2,3,5,6) show ?thesis by blast
qed

text \<open>
  Claim C1, as stated, fails: a reply that parses is returned as it is, with no check
  against the schema. The reply here parses to an object without
  \<^verbatim>\<open>extracted_pairs\<close>, which has none of the three shapes.
\<close>

theorem parsed_reply_of_any_shape:
  \<open>\<not> is_error_record
       (snd (call_gemini (model_stub (Returns ''{"summary": "n/a"}''))
               (json_loads ''Expecting value'') ''Invoice'' ''Total?'')) \<and>
   \<not> is_raw_output_record
       (snd (call_gemini (model_stub (Returns ''{"summary": "n/a"}''))
               (json_loads ''Expecting value'') ''Invoice'' ''Total?'')) \<and>
   \<not> conforms_to_schema
       (snd (call_gemini (model_stub (Returns ''{"summary": "n/a"}''))
               (json_loads ''Expecting value'') ''Invoice'' ''Total?''))\<close>
proof -
  have \<open>snd (call_gemini (model_stub (Returns ''{"summary": "n/a"}''))
               (json_loads ''Expecting value'') ''Invoice'' ''Total?'')
          = JObject [(''summary'', JString ''n/a'')]\<close>
    by (simp add: call_gemini_def model_stub_def cleaned_examples json_loads_def read_json_examples)
  then show ?thesis
    by (simp add: is_error_record_def is_raw_output_record_def conforms_to_schema_def required_def)
qed

text \<open>
  Claim C1, amended. \<open>call_gemini\<close> is total: every exception of the model call and
  of the parser is caught. It calls the model once. When that call raises, the result
  is the error record; when the cleaned reply does not parse, the result is the
  raw-output record; otherwise the result is the parsed value itself, whatever its
  shape.
\<close>

theorem call_gemini_three_outcomes:
  "fst (call_gemini chat_create loads d q) = [Model_call (model_prompt d q)] \<and>
   length (filter is_model_call (fst (call_gemini chat_create loads d q))) = 1 \<and>
   (chat_create (model_prompt d q) = Raises e \<longrightarrow>
      snd (call_gemini chat_create loads d q)
        = JObject [(''error'', JString (''Gemini API call failed: '' @ e))] \<and>
      is_error_record (snd (call_gemini chat_create loads d q))) \<and>
   (chat_create (model_prompt d q) = Returns r \<and> loads (cleaned r) = Raises e \<longrightarrow>
      snd (call_gemini chat_create loads d q)
        = JObject [(''raw_output'', JString (cleaned r)), (''parse_error'', JString e)] \<and>
      is_raw_output_record (snd (call_gemini chat_create loads d q))) \<and>
   (chat_create (model_prompt d q) = Returns r \<and> loads (cleaned r) = Returns v \<longrightarrow>
      snd (call_gemini chat_create loads d q) = v)"
  by (simp add: call_gemini_def is_error_record_def is_raw_output_record_def is_model_call_def
        split: outcome.split)

theorem call_gemini_three_outcomes_witness:
  \<open>call_gemini (model_stub (Raises ''timeout'')) (json_loads ''Expecting value'') ''Invoice'' ''Total?''
     = ([Model_call (model_prompt ''Invoice'' ''Total?'')],
        JObject [(''error'', JString ''Gemini API call failed: timeout'')]) \<and>
   snd (call_gemini (model_stub (Returns ''not json'')) (json_loads ''Expecting value'')
          ''Invoice'' ''Total?'')
     = JObject [(''raw_output'', JString ''not json''), (''parse_error'', JString ''Expecting value'')] \<and>
   snd (call_gemini (model_stub (Returns ''{"extracted_pairs": []}'')) (json_loads ''Expecting value'')
          ''Invoice'' ''Total?'')
     = JObject [(''extracted_pairs'', JArray [])] \<and>
   conforms_to_schema (JObject [(''extracted_pairs'', JArray [])])\<close>
proof -
  have l1: \<open>json_loads ''Expecting value'' (cleaned ''not json'') = Raises ''Expecting value''\<close>
    by (simp add: json_loads_def cleaned_examples read_json_examples)
  have l2: \<open>json_loads ''Expecting value'' (cleaned ''{"extracted_pairs": []}'')
              = Returns (JObject [(''extracted_pairs'', JArray [])])\<close>
    by (simp add: json_loads_def cleaned_examples read_json_examples)
  have a: \<open>call_gemini (model_stub (Raises ''timeout'')) (json_loads ''Expecting value'') ''Invoice'' ''Total?''
     = ([Model_call (model_prompt ''Invoice'' ''Total?'')],
        JObject [(''error'', JString ''Gemini API call failed: timeout'')])\<close>
    using call_gemini_three_outcomes
      [of "model_stub (Raises ''timeout'')" "json_loads ''Expecting value''" "''Invoice''" "''Total?''"
          "''timeout''" "[]" JNull]
    by (simp add: model_stub_def prod_eq_iff)
  have b: \<open>snd (call_gemini (model_stub (Returns ''not json'')) (json_loads ''Expecting value'')
          ''Invoice'' ''Total?'')
     = JObject [(''raw_output'', JString ''not json''), (''parse_error'', JString ''Expecting value'')]\<close>
    using call_gemini_three_outcomes
      [of "model_stub (Returns ''not json'')" "json_loads ''Expecting value''" "''Invoice''" "''Total?''"
          "''Expecting value''" "''not json''" JNull] l1
    by (simp add: model_stub_def cleaned_examples)
  have c: \<open>snd (call_gemini (model_stub (Returns ''{"extracted_pairs": []}'')) (json_loads ''Expecting value'')
          ''Invoice'' ''Total?'')
     = JObject [(''extracted_pairs'', JArray [])]\<close>
    using call_gemini_three_outcomes
      [of \<open>model_stub (Returns ''{"extracted_pairs": []}'')\<close> "json_loads ''Expecting value''"
          "''Invoice''" "''Total?''" "[]" \<open>''{"extracted_pairs": []}''\<close>
          "JObject [(''extracted_pairs'', JArray [])]"] l2
    by (simp add: model_stub_def)
  have d: "conforms_to_schema (JObject [(''extracted_pairs'', JArray [])])"
    by (simp add: conforms_to_schema_def required_def optional_def conforms_pairs_def)
  from a b c d show ?thesis by blast
qed

text \<open>
  Claim C9, as stated, fails: no code computes the risk level. For a document whose
  total is 75,000 and a reply that says Low, the risk level of the result is Low.
\<close>

theorem risk_level_follows_reply:
  \<open>lookup (snd (call_gemini (model_stub (Returns ''{"extracted_pairs": [], "risk_level": "Low"}''))
                  (json_loads ''Expecting value'') ''Total: $75,000'' ''What is the total amount?''))
      ''risk_level'' = Some (JString ''Low'')\<close>
  by (simp add: call_gemini_def model_stub_def cleaned_examples json_loads_def read_json_examples lookup_def)

text \<open>
  Claim C9, amended. The thresholds (High above 50,000, Medium between 5,000 and
  50,000, Low below 5,000, Unknown when the total cannot be determined) are
  instructions in the system prompt, which opens the one message sent to the model;
  the risk level of the result is the one the parsed reply carries.
\<close>

theorem risk_level_is_instructed_not_computed:
  "sublist ''High: total amount greater than 50,000; '' SYSTEM_PROMPT \<and>
   sublist ''Medium: total amount between 5,000 and 50,000; '' SYSTEM_PROMPT \<and>
   sublist ''Low: total amount less than 5,000; '' SYSTEM_PROMPT \<and>
   sublist (''Use '' @ [CHR 0x27] @ ''Unknown'' @ [CHR 0x27] @
            '' if the total amount cannot be determined. '') SYSTEM_PROMPT \<and>
   prefix SYSTEM_PROMPT (model_prompt d q) \<and>
   fst (call_gemini chat_create loads d q) = [Model_call (model_prompt d q)] \<and>
   (chat_create (model_prompt d q) = Returns r \<and> loads (cleaned r) = Returns v \<longrightarrow>
      lookup (snd (call_gemini chat_create loads d q)) ''risk_level'' = lookup v ''risk_level'')"
proof -
  have "prefix SYSTEM_PROMPT (model_prompt d q)" by (simp add: model_prompt_def)
  moreover have "fst (call_gemini chat_create loads d q) = [Model_call (model_prompt d q)]"
    by (rule model_call_of_call_gemini)
  moreover have "chat_create (model_prompt d q) = Returns r \<and> loads (cleaned r) = Returns v \<longrightarrow>
      lookup (snd (call_gemini chat_create loads d q)) ''risk_level'' = lookup v ''risk_level''"
    by (simp add: call_gemini_def)
  ultimately show ?thesis using thresholds_in_system_prompt by blast
qed

theorem risk_level_witness:
  \<open>model_stub (Returns ''{"extracted_pairs": [], "risk_level": "High"}'')
       (model_prompt ''Total: $75,000'' ''What is the total amount?'')
     = Returns ''{"extracted_pairs": [], "risk_level": "High"}'' \<and>
   json_loads ''Expecting value'' (cleaned ''{"extracted_pairs": [], "risk_level": "High"}'')
     = Returns (JObject [(''extracted_pairs'', JArray []), (''risk_level'', JString ''High'')]) \<and>
   lookup (snd (call_gemini (model_stub (Returns ''{"extracted_pairs": [], "risk_level": "High"}''))
                  (json_loads ''Expecting value'') ''Total: $75,000'' ''What is the total amount?''))
      ''risk_level'' = Some (JString ''High'')\<close>
proof -
  have a: \<open>model_stub (Returns ''{"extracted_pairs": [], "risk_level": "High"}'')
       (model_prompt ''Total: $75,000'' ''What is the total amount?'')
     = Returns ''{"extracted_pairs": [], "risk_level": "High"}''\<close>
    by (simp add: model_stub_def)
  have b: \<open>json_loads ''Expecting value'' (cleaned ''{"extracted_pairs": [], "risk_level": "High"}'')
     = Returns (JObject [(''extracted_pairs'', JArray []), (''risk_level'', JString ''High'')])\<close>
    by (simp add: json_loads_def cleaned_examples read_json_examples)
  from risk_level_is_instructed_not_computed
         [of "''Total: $75,000''" "''What is the total amount?''"
             \<open>model_stub (Returns ''{"extracted_pairs": [], "risk_level": "High"}'')\<close>
             "json_loads ''Expecting value''"
             \<open>''{"extracted_pairs": [], "risk_level": "High"}''\<close>
             "JObject [(''extracted_pairs'', JArray []), (''risk_level'', JString ''High'')]"] a b
  have \<open>lookup (snd (call_gemini (model_stub (Returns ''{"extracted_pairs": [], "risk_level": "High"}''))
                  (json_loads ''Expecting value'') ''Total: $75,000'' ''What is the total amount?''))
      ''risk_level''
     = lookup (JObject [(''extracted_pairs'', JArray []), (''risk_level'', JString ''High'')]) ''risk_level''\<close>
    by blast
  then have \<open>lookup (snd (call_gemini (model_stub (Returns ''{"extracted_pairs": [], "risk_level": "High"}''))
                  (json_loads ''Expecting value'') ''Total: $75,000'' ''What is the total amount?''))
      ''risk_level'' = Some (JString ''High'')\<close>
    by (simp add: lookup_def)
  with a b show ?thesis by blast
qed

end
